theory Spec2Isabelle
  imports Complex_Main
begin

section \<open>Python values and the operations the services apply to them\<close>

text \<open>
  The report handled by \<^verbatim>\<open>app/services/processing_service.py\<close> is the value that
  \<^verbatim>\<open>response.json()\<close> returns: \<^verbatim>\<open>None\<close>, a bool, an int, a float, a str, a list or a
  dict with string keys. A dict is an association list in insertion order (the order in
  which \<^verbatim>\<open>audits.items()\<close> enumerates it); a lookup takes the first entry of a key.
  The float type is a parameter \<open>'f\<close>: its arithmetic and its formatting belong to the
  Python runtime and are passed to every function in a record of type \<open>runtime\<close>.
\<close>

datatype 'f json =
    JNull
  | JBool bool
  | JInt int
  | JFloat 'f
  | JStr string
  | JList "'f json list"
  | JDict "(string \<times> 'f json) list"

text \<open>The exceptions that the modelled code can raise.\<close>

datatype error =
    TypeError
  | AttributeError
  | KeyError
  | IndexError
  | ValueError
  | OverflowError
  | ValidationError
  | HTTPException nat string
  | ProviderError string

text \<open>Sequencing of computations that may raise: the first exception ends the run.\<close>

definition ebind :: "error + 'a \<Rightarrow> ('a \<Rightarrow> error + 'b) \<Rightarrow> error + 'b" where
  "ebind m f = (case m of Inl e \<Rightarrow> Inl e | Inr x \<Rightarrow> f x)"

text \<open>
  The builtins of the runtime that are not written out here. \<open>None\<close> stands for
  \<^verbatim>\<open>OverflowError\<close> in \<open>int_truediv\<close> and \<open>float_of_int\<close>, and for \<^verbatim>\<open>ValueError\<close> in
  \<open>int_of_str\<close>.
\<close>

record 'f runtime =
  float_mul_int :: "'f \<Rightarrow> int \<Rightarrow> 'f"
  float_gt_int :: "'f \<Rightarrow> int \<Rightarrow> bool"
  float_truth :: "'f \<Rightarrow> bool"
  float_div_int :: "'f \<Rightarrow> int \<Rightarrow> 'f"
  int_truediv :: "int \<Rightarrow> int \<Rightarrow> 'f option"
  float_of_int :: "int \<Rightarrow> 'f option"
  float_format_0f :: "'f \<Rightarrow> string"
  int_of_float :: "'f \<Rightarrow> error + int"
  float_repr :: "'f \<Rightarrow> string"
  str_repr :: "string \<Rightarrow> string"
  int_of_str :: "string \<Rightarrow> int option"

text \<open>\<^verbatim>\<open>x.get(key, default)\<close>: only a dict has the method.\<close>

fun py_get :: "'f json \<Rightarrow> string \<Rightarrow> 'f json \<Rightarrow> error + 'f json" where
  "py_get (JDict kvs) k d = (case map_of kvs k of None \<Rightarrow> Inr d | Some v \<Rightarrow> Inr v)"
| "py_get _ k d = Inl AttributeError"

text \<open>Truth value of a Python object, as \<^verbatim>\<open>if x:\<close> and \<^verbatim>\<open>not x\<close> take it.\<close>

fun truthy :: "'f runtime \<Rightarrow> 'f json \<Rightarrow> bool" where
  "truthy P JNull = False"
| "truthy P (JBool b) = b"
| "truthy P (JInt i) = (i \<noteq> 0)"
| "truthy P (JFloat x) = float_truth P x"
| "truthy P (JStr s) = (s \<noteq> [])"
| "truthy P (JList xs) = (xs \<noteq> [])"
| "truthy P (JDict kvs) = (kvs \<noteq> [])"

text \<open>\<^verbatim>\<open>x * 100\<close>: numbers multiply, a str and a list are repeated.\<close>

fun py_mul_100 :: "'f runtime \<Rightarrow> 'f json \<Rightarrow> error + 'f json" where
  "py_mul_100 P (JInt i) = Inr (JInt (i * 100))"
| "py_mul_100 P (JBool b) = Inr (JInt ((if b then 1 else 0) * 100))"
| "py_mul_100 P (JFloat x) = Inr (JFloat (float_mul_int P x 100))"
| "py_mul_100 P (JStr s) = Inr (JStr (concat (replicate 100 s)))"
| "py_mul_100 P (JList xs) = Inr (JList (concat (replicate 100 xs)))"
| "py_mul_100 P JNull = Inl TypeError"
| "py_mul_100 P (JDict kvs) = Inl TypeError"

text \<open>\<^verbatim>\<open>x > 0\<close>: defined between numbers only.\<close>

fun py_gt_0 :: "'f runtime \<Rightarrow> 'f json \<Rightarrow> error + bool" where
  "py_gt_0 P (JInt i) = Inr (i > 0)"
| "py_gt_0 P (JBool b) = Inr b"
| "py_gt_0 P (JFloat x) = Inr (float_gt_int P x 0)"
| "py_gt_0 P _ = Inl TypeError"

text \<open>
  \<^verbatim>\<open>format(x, ".0f")\<close>, the conversion of \<^verbatim>\<open>{x:.0f}\<close> in an f-string: an int (and a
  bool) is converted to a float first, \<^verbatim>\<open>None\<close>, a list and a dict do not accept a format
  specification, a str does not know the code \<^verbatim>\<open>f\<close>.
\<close>

definition int_format_0f :: "'f runtime \<Rightarrow> int \<Rightarrow> error + string" where
  "int_format_0f P i =
     (case float_of_int P i of None \<Rightarrow> Inl OverflowError
      | Some x \<Rightarrow> Inr (float_format_0f P x))"

fun py_format_0f :: "'f runtime \<Rightarrow> 'f json \<Rightarrow> error + string" where
  "py_format_0f P (JFloat x) = Inr (float_format_0f P x)"
| "py_format_0f P (JInt i) = int_format_0f P i"
| "py_format_0f P (JBool b) = int_format_0f P (if b then 1 else 0)"
| "py_format_0f P (JStr s) = Inl ValueError"
| "py_format_0f P _ = Inl TypeError"

text \<open>\<^verbatim>\<open>x / 1024\<close>: true division, always a float.\<close>

definition int_div_1024 :: "'f runtime \<Rightarrow> int \<Rightarrow> error + 'f" where
  "int_div_1024 P i =
     (case int_truediv P i 1024 of None \<Rightarrow> Inl OverflowError | Some x \<Rightarrow> Inr x)"

fun py_div_1024 :: "'f runtime \<Rightarrow> 'f json \<Rightarrow> error + 'f" where
  "py_div_1024 P (JFloat x) = Inr (float_div_int P x 1024)"
| "py_div_1024 P (JInt i) = int_div_1024 P i"
| "py_div_1024 P (JBool b) = int_div_1024 P (if b then 1 else 0)"
| "py_div_1024 P _ = Inl TypeError"

text \<open>\<^verbatim>\<open>int(x)\<close>.\<close>

fun py_int :: "'f runtime \<Rightarrow> 'f json \<Rightarrow> error + int" where
  "py_int P (JInt i) = Inr i"
| "py_int P (JBool b) = Inr (if b then 1 else 0)"
| "py_int P (JFloat x) = int_of_float P x"
| "py_int P (JStr s) = (case int_of_str P s of None \<Rightarrow> Inl ValueError | Some i \<Rightarrow> Inr i)"
| "py_int P _ = Inl TypeError"

text \<open>\<^verbatim>\<open>for item in x\<close>: a list gives its elements, a str its characters, a dict its keys.\<close>

fun py_iter :: "'f json \<Rightarrow> error + 'f json list" where
  "py_iter (JList xs) = Inr xs"
| "py_iter (JStr s) = Inr (map (\<lambda>c. JStr [c]) s)"
| "py_iter (JDict kvs) = Inr (map (\<lambda>kv. JStr (fst kv)) kvs)"
| "py_iter _ = Inl TypeError"

text \<open>\<^verbatim>\<open>x[key]\<close> with a string key, and \<^verbatim>\<open>x[0]\<close>.\<close>

fun py_getitem :: "'f json \<Rightarrow> string \<Rightarrow> error + 'f json" where
  "py_getitem (JDict kvs) k = (case map_of kvs k of None \<Rightarrow> Inl KeyError | Some v \<Rightarrow> Inr v)"
| "py_getitem _ k = Inl TypeError"

fun py_getitem_0 :: "'f json \<Rightarrow> error + 'f json" where
  "py_getitem_0 (JList xs) = (case xs of [] \<Rightarrow> Inl IndexError | x # _ \<Rightarrow> Inr x)"
| "py_getitem_0 (JStr s) = (case s of [] \<Rightarrow> Inl IndexError | c # _ \<Rightarrow> Inr (JStr [c]))"
| "py_getitem_0 (JDict kvs) = Inl KeyError"
| "py_getitem_0 _ = Inl TypeError"

text \<open>Decimal digits of a number, for \<^verbatim>\<open>str\<close> of an int.\<close>

function digits :: "nat \<Rightarrow> string" where
  "digits n =
     (if n < 10 then [char_of (48 + n)]
      else digits (n div 10) @ [char_of (48 + n mod 10)])"
  by pat_completeness auto
termination
  by (relation "measure id") auto

declare digits.simps [simp del]

definition show_int :: "int \<Rightarrow> string" where
  "show_int i = (if i < 0 then CHR ''-'' # digits (nat (- i)) else digits (nat i))"

definition join :: "string \<Rightarrow> string list \<Rightarrow> string" where
  "join sep xs = concat (case xs of [] \<Rightarrow> [] | y # ys \<Rightarrow> y # map (\<lambda>z. sep @ z) ys)"

text \<open>
  \<^verbatim>\<open>repr(x)\<close> and \<^verbatim>\<open>str(x)\<close>, the conversion of \<^verbatim>\<open>{x}\<close> in an f-string. They differ on a
  str only.
\<close>

fun py_repr :: "'f runtime \<Rightarrow> 'f json \<Rightarrow> string" where
  "py_repr P JNull = ''None''"
| "py_repr P (JBool b) = (if b then ''True'' else ''False'')"
| "py_repr P (JInt i) = show_int i"
| "py_repr P (JFloat x) = float_repr P x"
| "py_repr P (JStr s) = str_repr P s"
| "py_repr P (JList xs) = ''['' @ join '', '' (map (py_repr P) xs) @ '']''"
| "py_repr P (JDict kvs) =
     ''{'' @ join '', '' (map (\<lambda>kv. str_repr P (fst kv) @ '': '' @ py_repr P (snd kv)) kvs) @ ''}''"

fun py_str :: "'f runtime \<Rightarrow> 'f json \<Rightarrow> string" where
  "py_str P (JStr s) = s"
| "py_str P v = py_repr P v"

text \<open>\<^verbatim>\<open>s.replace('-', ' ')\<close> and \<^verbatim>\<open>s.title()\<close>, on ASCII text.\<close>

definition py_replace_hyphen :: "string \<Rightarrow> string" where
  "py_replace_hyphen s = map (\<lambda>c. if c = CHR ''-'' then CHR '' '' else c) s"

definition is_lower :: "char \<Rightarrow> bool" where
  "is_lower c = (97 \<le> (of_char c :: nat) \<and> (of_char c :: nat) \<le> 122)"

definition is_upper :: "char \<Rightarrow> bool" where
  "is_upper c = (65 \<le> (of_char c :: nat) \<and> (of_char c :: nat) \<le> 90)"

definition to_upper :: "char \<Rightarrow> char" where
  "to_upper c = (if is_lower c then char_of ((of_char c :: nat) - 32) else c)"

definition to_lower :: "char \<Rightarrow> char" where
  "to_lower c = (if is_upper c then char_of ((of_char c :: nat) + 32) else c)"

fun title_from :: "bool \<Rightarrow> string \<Rightarrow> string" where
  "title_from prev [] = []"
| "title_from prev (c # cs) =
     (if is_lower c \<or> is_upper c
      then (if prev then to_lower c else to_upper c) # title_from True cs
      else c # title_from False cs)"

definition py_title :: "string \<Rightarrow> string" where
  "py_title s = title_from False s"

text \<open>
  A \<^verbatim>\<open>for\<close> loop that appends to a list: the body gives the element to append, or
  nothing, or raises, and the first exception ends the loop.
\<close>

fun collect :: "('a \<Rightarrow> error + 'b option) \<Rightarrow> 'a list \<Rightarrow> error + 'b list" where
  "collect f [] = Inr []"
| "collect f (x # xs) =
     ebind (f x) (\<lambda>y. ebind (collect f xs) (\<lambda>ys.
       Inr (case y of None \<Rightarrow> ys | Some z \<Rightarrow> z # ys)))"

section \<open>\<^verbatim>\<open>app/models.py\<close>\<close>

text \<open>
  The pydantic models. A field declared \<^verbatim>\<open>str\<close> accepts a str only, so the constructor
  of \<open>Metric\<close> raises a validation error on any other value.
\<close>

record Metric =
  metric_title :: string
  metric_value :: string

fun new_Metric :: "'f json \<Rightarrow> 'f json \<Rightarrow> error + Metric" where
  "new_Metric (JStr t) (JStr v) = Inr \<lparr>metric_title = t, metric_value = v\<rparr>"
| "new_Metric _ _ = Inl ValidationError"

datatype strategy = Mobile | Desktop

record AnalysisRequest =
  url :: string
  strategy :: strategy

record AnalysisResponse =
  performance_score :: int
  metrics :: "Metric list"
  initial_suggestion :: string

datatype role = User | Assistant

record ChatMessage =
  role :: role
  content :: string

record ChatRequest =
  history :: "ChatMessage list"

section \<open>\<^verbatim>\<open>app/services/processing_service.py\<close>\<close>

subsection \<open>\<^verbatim>\<open>extract_key_metrics\<close>\<close>

definition metrics_to_extract :: "string list" where
  "metrics_to_extract =
     [''first-contentful-paint'', ''speed-index'', ''largest-contentful-paint'',
      ''interactive'', ''total-blocking-time'', ''cumulative-layout-shift'']"

definition key_metric :: "'f json \<Rightarrow> string \<Rightarrow> error + Metric option" where
  "key_metric audits metric_id =
     ebind (py_get audits metric_id (JDict [])) (\<lambda>metric_data.
     ebind (py_get metric_data ''title'' (JStr (py_title (py_replace_hyphen metric_id)))) (\<lambda>t.
     ebind (py_get metric_data ''displayValue'' (JStr ''N/A'')) (\<lambda>v.
     ebind (new_Metric t v) (\<lambda>m. Inr (Some m)))))"

definition extract_key_metrics :: "'f json \<Rightarrow> error + Metric list" where
  "extract_key_metrics data =
     ebind (py_get data ''lighthouseResult'' (JDict [])) (\<lambda>lighthouse_result.
     ebind (py_get lighthouse_result ''audits'' (JDict [])) (\<lambda>audits.
     collect (key_metric audits) metrics_to_extract))"

subsection \<open>\<^verbatim>\<open>extract_info_for_llm\<close>\<close>

text \<open>
  The dict that \<^verbatim>\<open>extract_info_for_llm\<close> builds has four fixed keys; \<open>summary\<close> and
  \<open>diagnostics\<close> are dicts whose keys may be missing. The function returns either this
  dict or the empty dict \<^verbatim>\<open>{}\<close>, which is \<open>None\<close> here.
\<close>

record 'f core_metric =
  cm_title :: "'f json"
  cm_value :: "'f json"

record 'f opportunity =
  opp_title :: "'f json"
  opp_description :: "'f json"
  opp_savings :: "'f json"
  opp_items :: "string list"

record 'f extracted_info =
  summary_performance_score :: "'f json option"
  core_metrics :: "'f core_metric list"
  opportunities :: "'f opportunity list"
  diagnostics_critical_request_chains :: "string option"
  diagnostics_resource_summary :: "string option"

definition nl :: string where
  "nl = [char_of (10 :: nat)]"

text \<open>Lines 59 to 61: the overall performance score.\<close>

definition performance_category :: "'f json \<Rightarrow> error + 'f json" where
  "performance_category lighthouse_result =
     ebind (py_get lighthouse_result ''categories'' (JDict [])) (\<lambda>categories.
     py_get categories ''performance'' (JDict []))"

definition summary_score :: "'f runtime \<Rightarrow> 'f json \<Rightarrow> error + 'f json option" where
  "summary_score P lighthouse_result =
     ebind (performance_category lighthouse_result) (\<lambda>category.
     ebind (py_get category ''score'' JNull) (\<lambda>score.
     if score \<noteq> JNull
     then ebind (py_getitem category ''score'') (\<lambda>s.
          ebind (py_mul_100 P s) (\<lambda>v. Inr (Some v)))
     else Inr None))"

text \<open>
  Lines 64 to 78: the core metrics. The list is written as the source has it: the last
  two literals stand without a comma between them, and Python joins adjacent literals.
\<close>

definition metric_ids :: "string list" where
  "metric_ids =
     [''largest-contentful-paint'',
      ''total-blocking-time'',
      ''cumulative-layout-shift'',
      ''first-contentful-paint'',
      ''speed-index'' @ ''interactive'']"

definition core_metric_of :: "'f runtime \<Rightarrow> 'f json \<Rightarrow> string \<Rightarrow> error + 'f core_metric option" where
  "core_metric_of P audits metric_id =
     ebind (py_get audits metric_id JNull) (\<lambda>metric_audit.
     if truthy P metric_audit
     then ebind (py_get metric_audit ''title'' JNull) (\<lambda>t.
          ebind (py_get metric_audit ''displayValue'' JNull) (\<lambda>v.
          Inr (Some \<lparr>cm_title = t, cm_value = v\<rparr>)))
     else Inr None)"

text \<open>Lines 81 to 98: the opportunities.\<close>

definition opportunity_item :: "'f runtime \<Rightarrow> string \<Rightarrow> 'f json \<Rightarrow> error + string option" where
  "opportunity_item P audit_id item =
     (if audit_id = ''bootup-time''
      then ebind (py_get item ''url'' JNull) (\<lambda>u.
           ebind (py_get item ''total'' JNull) (\<lambda>total.
           ebind (py_format_0f P total) (\<lambda>ms.
           Inr (Some (''  - Script: '' @ py_str P u @ '', CPU Time: '' @ ms @ ''ms'')))))
      else if audit_id = ''image-delivery-insight''
      then ebind (py_get item ''subItems'' JNull) (\<lambda>sub.
           if truthy P sub
           then ebind (py_getitem item ''subItems'') (\<lambda>sub_items.
                ebind (py_getitem sub_items ''items'') (\<lambda>inner.
                ebind (py_getitem_0 inner) (\<lambda>first.
                ebind (py_get first ''reason'' (JStr ''Optimization needed'')) (\<lambda>reason.
                ebind (py_get item ''url'' JNull) (\<lambda>u.
                Inr (Some (''  - Image: '' @ py_str P u @ '', Reason: '' @ py_str P reason)))))))
           else Inr None)
      else Inr None)"

definition is_opportunity :: "'f runtime \<Rightarrow> 'f json \<Rightarrow> error + bool" where
  "is_opportunity P details =
     ebind (py_get details ''type'' JNull) (\<lambda>ty.
     if ty = JStr ''opportunity''
     then ebind (py_get details ''overallSavingsMs'' (JInt 0)) (\<lambda>savings.
          ebind (py_gt_0 P savings) (\<lambda>positive.
          if positive then Inr True
          else ebind (py_get details ''items'' (JList [])) (\<lambda>its. Inr (truthy P its))))
     else Inr False)"

definition make_opportunity ::
  "'f runtime \<Rightarrow> string \<Rightarrow> 'f json \<Rightarrow> 'f json \<Rightarrow> error + 'f opportunity" where
  "make_opportunity P audit_id audit details =
     ebind (py_get audit ''title'' JNull) (\<lambda>t.
     ebind (py_get audit ''description'' JNull) (\<lambda>d.
     ebind (py_get audit ''displayValue'' (JStr [])) (\<lambda>s.
     ebind (py_get details ''items'' (JList [])) (\<lambda>its.
     ebind (py_iter its) (\<lambda>xs.
     ebind (collect (opportunity_item P audit_id) xs) (\<lambda>lines.
     Inr \<lparr>opp_title = t, opp_description = d, opp_savings = s, opp_items = lines\<rparr>))))))"

definition opportunity_of ::
  "'f runtime \<Rightarrow> string \<times> 'f json \<Rightarrow> error + 'f opportunity option" where
  "opportunity_of P entry =
     (case entry of (audit_id, audit) \<Rightarrow>
       ebind (py_get audit ''details'' (JDict [])) (\<lambda>details.
       ebind (is_opportunity P details) (\<lambda>b.
       if b then ebind (make_opportunity P audit_id audit details) (\<lambda>opp. Inr (Some opp))
       else Inr None)))"

fun py_items :: "'f json \<Rightarrow> error + (string \<times> 'f json) list" where
  "py_items (JDict kvs) = Inr kvs"
| "py_items _ = Inl AttributeError"

text \<open>Lines 102 to 109: the critical request chains.\<close>

definition critical_request_chains :: "'f runtime \<Rightarrow> 'f json \<Rightarrow> error + string option" where
  "critical_request_chains P audits =
     ebind (py_get audits ''critical-request-chains'' (JDict [])) (\<lambda>crc_audit.
     if \<not> truthy P crc_audit then Inr None
     else ebind (py_get crc_audit ''details'' JNull) (\<lambda>d.
     if \<not> truthy P d then Inr None
     else ebind (py_getitem crc_audit ''details'') (\<lambda>details.
          ebind (py_get details ''longestChain'' (JDict [])) (\<lambda>longest_chain.
          if truthy P longest_chain
          then ebind (py_get longest_chain ''length'' JNull) (\<lambda>len.
               ebind (py_get longest_chain ''duration'' JNull) (\<lambda>duration.
               ebind (py_format_0f P duration) (\<lambda>ms.
               Inr (Some (''Longest chain: '' @ py_str P len @ '' requests, taking ''
                          @ ms @ ''ms.'')))))
          else Inr None))))"

text \<open>Lines 112 to 121: the resource summary.\<close>

definition resource_types :: "string list" where
  "resource_types = [''total'', ''script'', ''image'', ''font'', ''third-party'']"

definition resource_summary_item :: "'f runtime \<Rightarrow> 'f json \<Rightarrow> error + string option" where
  "resource_summary_item P item =
     ebind (py_get item ''resourceType'' JNull) (\<lambda>rt.
     if rt \<in> set (map JStr resource_types)
     then ebind (py_get item ''transferSize'' (JInt 0)) (\<lambda>ts.
          ebind (py_div_1024 P ts) (\<lambda>size_kb.
          ebind (py_get item ''label'' JNull) (\<lambda>label.
          ebind (py_get item ''requestCount'' JNull) (\<lambda>request_count.
          Inr (Some (''  - '' @ py_str P label @ '': '' @ py_str P request_count
                     @ '' requests, '' @ float_format_0f P size_kb @ '' KB''))))))
     else Inr None)"

definition resource_summary :: "'f runtime \<Rightarrow> 'f json \<Rightarrow> error + string option" where
  "resource_summary P audits =
     ebind (py_get audits ''resource-summary'' (JDict [])) (\<lambda>rs_audit.
     if \<not> truthy P rs_audit then Inr None
     else ebind (py_get rs_audit ''details'' (JDict [])) (\<lambda>d.
          ebind (py_get d ''items'' JNull) (\<lambda>its.
          if \<not> truthy P its then Inr None
          else ebind (py_getitem rs_audit ''details'') (\<lambda>details.
               ebind (py_getitem details ''items'') (\<lambda>items.
               ebind (py_iter items) (\<lambda>xs.
               ebind (collect (resource_summary_item P) xs) (\<lambda>summary_items.
               Inr (Some (join nl summary_items)))))))))"

fun extract_info_for_llm :: "'f runtime \<Rightarrow> 'f json \<Rightarrow> error + 'f extracted_info option" where
  "extract_info_for_llm P (JDict kvs) =
     ebind (py_get (JDict kvs) ''lighthouseResult'' (JDict [])) (\<lambda>lighthouse_result.
     if \<not> truthy P lighthouse_result then Inr None
     else ebind (py_get lighthouse_result ''audits'' (JDict [])) (\<lambda>audits.
          ebind (summary_score P lighthouse_result) (\<lambda>score.
          ebind (collect (core_metric_of P audits) metric_ids) (\<lambda>ms.
          ebind (py_items audits) (\<lambda>entries.
          ebind (collect (opportunity_of P) entries) (\<lambda>opps.
          ebind (critical_request_chains P audits) (\<lambda>crc.
          ebind (resource_summary P audits) (\<lambda>rs.
          Inr (Some \<lparr>summary_performance_score = score, core_metrics = ms,
                      opportunities = opps,
                      diagnostics_critical_request_chains = crc,
                      diagnostics_resource_summary = rs\<rparr>)))))))))"
| "extract_info_for_llm P _ = Inl TypeError"

subsection \<open>\<^verbatim>\<open>format_for_llm\<close>\<close>

definition score_lines :: "'f runtime \<Rightarrow> 'f json option \<Rightarrow> error + string list" where
  "score_lines P score =
     (case score of None \<Rightarrow> Inr []
      | Some sc \<Rightarrow> ebind (py_format_0f P sc) (\<lambda>s. Inr [''Overall Score: '' @ s @ ''/100'']))"

definition metric_line :: "'f runtime \<Rightarrow> 'f core_metric \<Rightarrow> string" where
  "metric_line P m = ''- '' @ py_str P (cm_title m) @ '': '' @ py_str P (cm_value m)"

definition opportunity_lines :: "'f runtime \<Rightarrow> 'f opportunity \<Rightarrow> string list" where
  "opportunity_lines P opp =
     (nl @ ''- '' @ py_str P (opp_title opp) @ '' ('' @ py_str P (opp_savings opp) @ '')'')
     # opp_items opp"

definition format_for_llm :: "'f runtime \<Rightarrow> 'f extracted_info option \<Rightarrow> string \<Rightarrow> error + string" where
  "format_for_llm P extracted_data u =
     (case extracted_data of
        None \<Rightarrow> Inr ''No performance data could be extracted.''
      | Some d \<Rightarrow>
          ebind (score_lines P (summary_performance_score d)) (\<lambda>sl.
          Inr (join nl
            ([''--- Performance Summary Report for URL: '' @ u @ '' ---'']
             @ sl
             @ [nl @ ''--- Core Metrics ---'']
             @ map (metric_line P) (core_metrics d)
             @ [nl @ ''--- Top Opportunities for Improvement ---'']
             @ (if opportunities d = []
                then [''No significant opportunities were identified.'']
                else concat (map (opportunity_lines P) (opportunities d)))
             @ [nl @ ''--- Key Diagnostics ---'']
             @ (if diagnostics_critical_request_chains d = None
                   \<and> diagnostics_resource_summary d = None
                then [''No key diagnostics available.'']
                else (case diagnostics_critical_request_chains d of None \<Rightarrow> []
                      | Some c \<Rightarrow> [''- Critical Request Chains: '' @ c])
                   @ (case diagnostics_resource_summary d of None \<Rightarrow> []
                      | Some r \<Rightarrow> [''- Resource Breakdown:'' @ nl @ r]))))))"

section \<open>\<^verbatim>\<open>app/services/llm_service.py\<close>\<close>

text \<open>
  The language model is reached through \<^verbatim>\<open>chain.ainvoke\<close> and \<^verbatim>\<open>chain.astream\<close>, both
  called with a dict of the three keys \<^verbatim>\<open>history\<close>, \<^verbatim>\<open>query\<close> and \<^verbatim>\<open>report_summary\<close>.
  The chain itself is outside the program: it is a parameter of the operations below,
  and every operation returns, beside its result, the list of the calls it has issued.
\<close>

datatype lc_message = HumanMessage string | AIMessage string

record llm_call =
  call_history :: "lc_message list"
  call_query :: string
  call_report_summary :: string

definition initial_prompt :: string where
  "initial_prompt =
     ''Based on the Lighthouse report summary, provide a brief, high-level overview ''
     @ ''of the website's performance. Start with a friendly greeting and highlight ''
     @ ''key areas for improvement in a concise, encouraging tone. Keep the entire response to less than 10 sentences.''"

definition get_initial_suggestion ::
  "(llm_call \<Rightarrow> error + string) \<Rightarrow> string \<Rightarrow> (error + string) \<times> llm_call list" where
  "get_initial_suggestion chain_ainvoke report_summary =
     (let call = \<lparr>call_history = [], call_query = initial_prompt,
                  call_report_summary = report_summary\<rparr>
      in (chain_ainvoke call, [call]))"

text \<open>
  The loop of \<^verbatim>\<open>get_llm_stream\<close> that converts the history. A role is one of the two
  literals of \<^verbatim>\<open>ChatMessage.role\<close>, so one of the two branches is taken for every message.
\<close>

fun langchain_history :: "ChatMessage list \<Rightarrow> lc_message list" where
  "langchain_history [] = []"
| "langchain_history (msg # rest) =
     (case role msg of
        User \<Rightarrow> HumanMessage (content msg) # langchain_history rest
      | Assistant \<Rightarrow> AIMessage (content msg) # langchain_history rest)"

definition get_llm_stream ::
  "(llm_call \<Rightarrow> 's) \<Rightarrow> ChatMessage list \<Rightarrow> string \<Rightarrow> string \<Rightarrow> 's \<times> llm_call list" where
  "get_llm_stream chain_astream hist query report_summary =
     (let call = \<lparr>call_history = langchain_history hist, call_query = query,
                  call_report_summary = report_summary\<rparr>
      in (chain_astream call, [call]))"

section \<open>\<^verbatim>\<open>app/main.py\<close>\<close>

record 'f AppState =
  full_report :: "'f json option"
  llm_summary :: "string option"

text \<open>
  Lines 53 to 61 of \<^verbatim>\<open>analyze_website\<close>: the response, once the suggestion has been
  received.
\<close>

definition analysis_response ::
  "'f runtime \<Rightarrow> 'f json \<Rightarrow> string \<Rightarrow> error + AnalysisResponse" where
  "analysis_response P report suggestion =
     ebind (py_get report ''lighthouseResult'' (JDict [])) (\<lambda>lighthouse_result.
     ebind (performance_category lighthouse_result) (\<lambda>category.
     ebind (py_get category ''score'' (JInt 0)) (\<lambda>score.
     ebind (py_mul_100 P score) (\<lambda>perf_score.
     ebind (extract_key_metrics report) (\<lambda>key_metrics.
     ebind (py_int P perf_score) (\<lambda>n.
     Inr \<lparr>performance_score = n, metrics = key_metrics,
          initial_suggestion = suggestion\<rparr>))))))"

text \<open>
  \<^verbatim>\<open>analyze_website\<close>. The first parameter after the runtime is
  \<^verbatim>\<open>pagespeed_service.get_pagespeed_insights\<close>, which returns the report or raises.
  The result is the response or the exception, the state of the application afterwards,
  and the calls issued to the language model.
\<close>

definition analyze_website ::
  "'f runtime \<Rightarrow> (string \<Rightarrow> strategy \<Rightarrow> error + 'f json) \<Rightarrow> (llm_call \<Rightarrow> error + string)
   \<Rightarrow> 'f AppState \<Rightarrow> AnalysisRequest
   \<Rightarrow> (error + AnalysisResponse) \<times> 'f AppState \<times> llm_call list" where
  "analyze_website P get_pagespeed_insights chain_ainvoke app_state request =
     (case get_pagespeed_insights (url request) (strategy request) of
        Inl e \<Rightarrow> (Inl e, app_state, [])
      | Inr report \<Rightarrow>
          (let st1 = app_state\<lparr>full_report := Some report\<rparr> in
           case extract_info_for_llm P report of
             Inl e \<Rightarrow> (Inl e, st1, [])
           | Inr summary \<Rightarrow>
               (case format_for_llm P summary (url request) of
                  Inl e \<Rightarrow> (Inl e, st1, [])
                | Inr text \<Rightarrow>
                    (let st2 = st1\<lparr>llm_summary := Some text\<rparr> in
                     case get_initial_suggestion chain_ainvoke text of
                       (Inl e, calls) \<Rightarrow> (Inl e, st2, calls)
                     | (Inr suggestion, calls) \<Rightarrow>
                         (analysis_response P report suggestion, st2, calls)))))"

text \<open>
  \<^verbatim>\<open>chat_with_llm\<close>. It reads the state and does not write it. \<^verbatim>\<open>not app_state.llm_summary\<close>
  holds of \<^verbatim>\<open>None\<close> and of the empty string. The generator that \<^verbatim>\<open>get_llm_stream\<close>
  returns is run by the streaming response; the call to the model that it makes is
  counted among the calls of the operation.
\<close>

definition chat_with_llm ::
  "(llm_call \<Rightarrow> 's) \<Rightarrow> 'f AppState \<Rightarrow> ChatRequest \<Rightarrow> (error + 's) \<times> llm_call list" where
  "chat_with_llm chain_astream app_state request =
     (case llm_summary app_state of
        None \<Rightarrow>
          (Inl (HTTPException 400 ''Please analyze a website first before starting a chat.''), [])
      | Some text \<Rightarrow>
          if text = []
          then (Inl (HTTPException 400 ''Please analyze a website first before starting a chat.''), [])
          else
            (let user_query =
                   (if history request \<noteq> [] then content (last (history request)) else []);
                 chat_history = butlast (history request)
             in case get_llm_stream chain_astream chat_history user_query text of
                  (stream, calls) \<Rightarrow> (Inr stream, calls)))"

section \<open>A runtime for evaluating examples\<close>

text \<open>
  In this runtime a float is an exact rational number: it has no rounding, no infinity
  and no NaN, so its values differ from those of Python where a float rounds (the
  product \<^verbatim>\<open>0.57 * 100\<close>, for instance) or prints with an exponent or a signed zero. It
  serves to evaluate the functions above on concrete reports, none of which goes
  through such a value; the general theorems below hold for every runtime.
\<close>

definition round_half_even :: "rat \<Rightarrow> int" where
  "round_half_even x =
     (let n = \<lfloor>x\<rfloor>; r = x - of_int n
      in if r < 1 / 2 then n else if 1 / 2 < r then n + 1
         else if even n then n else n + 1)"

fun fraction_digits :: "nat \<Rightarrow> rat \<Rightarrow> string" where
  "fraction_digits 0 r = []"
| "fraction_digits (Suc k) r =
     (if r = 0 then []
      else digits (nat \<lfloor>r * 10\<rfloor>) @ fraction_digits k (r * 10 - of_int \<lfloor>r * 10\<rfloor>))"

definition show_rat :: "rat \<Rightarrow> string" where
  "show_rat x =
     (let a = \<bar>x\<bar>; n = \<lfloor>a\<rfloor>; r = a - of_int n
      in (if x < 0 then ''-'' else []) @ digits (nat n) @ ''.''
         @ (if r = 0 then ''0'' else fraction_digits 17 r))"

definition is_digit :: "char \<Rightarrow> bool" where
  "is_digit c = (48 \<le> (of_char c :: nat) \<and> (of_char c :: nat) \<le> 57)"

definition parse_nat :: "string \<Rightarrow> int option" where
  "parse_nat s =
     (if s \<noteq> [] \<and> list_all is_digit s
      then Some (foldl (\<lambda>a c. 10 * a + (int (of_char c) - 48)) 0 s)
      else None)"

definition parse_int :: "string \<Rightarrow> int option" where
  "parse_int s =
     (case s of
        [] \<Rightarrow> None
      | c # cs \<Rightarrow>
          if c = CHR ''-'' then map_option uminus (parse_nat cs)
          else if c = CHR ''+'' then parse_nat cs
          else parse_nat s)"

definition exact_runtime :: "rat runtime" where
  "exact_runtime =
     \<lparr>float_mul_int = (\<lambda>x i. x * of_int i),
      float_gt_int = (\<lambda>x i. of_int i < x),
      float_truth = (\<lambda>x. x \<noteq> 0),
      float_div_int = (\<lambda>x i. x / of_int i),
      int_truediv = (\<lambda>i j. Some (of_int i / of_int j)),
      float_of_int = (\<lambda>i. Some (of_int i)),
      float_format_0f = (\<lambda>x. show_int (round_half_even x)),
      int_of_float = (\<lambda>x. Inr (if 0 \<le> x then \<lfloor>x\<rfloor> else \<lceil>x\<rceil>)),
      float_repr = show_rat,
      str_repr = (\<lambda>s. [char_of (39 :: nat)] @ s @ [char_of (39 :: nat)]),
      int_of_str = parse_int\<rparr>"

section \<open>Vocabulary of the claims\<close>

text \<open>
  The performance category of a report, found as line 54 of \<^verbatim>\<open>app/main.py\<close> finds it
  (a missing \<^verbatim>\<open>lighthouseResult\<close>, \<^verbatim>\<open>categories\<close> or \<^verbatim>\<open>performance\<close> counting as an
  empty dict), has no key \<^verbatim>\<open>score\<close>.
\<close>

definition performance_score_absent :: "'f json \<Rightarrow> bool" where
  "performance_score_absent report =
     (case ebind (py_get report ''lighthouseResult'' (JDict [])) performance_category of
        Inr (JDict kvs) \<Rightarrow> map_of kvs ''score'' = None
      | _ \<Rightarrow> False)"

text \<open>The categories of a report, missing or a dict, have no key \<^verbatim>\<open>performance\<close>.\<close>

definition no_performance_category :: "'f json \<Rightarrow> bool" where
  "no_performance_category report =
     (case ebind (py_get report ''lighthouseResult'' (JDict []))
             (\<lambda>lr. py_get lr ''categories'' (JDict [])) of
        Inr (JDict kvs) \<Rightarrow> map_of kvs ''performance'' = None
      | _ \<Rightarrow> False)"

text \<open>The audits of a report, in the order of the report.\<close>

definition report_audits :: "'f json \<Rightarrow> (string \<times> 'f json) list" where
  "report_audits report =
     (case ebind (py_get report ''lighthouseResult'' (JDict []))
             (\<lambda>lr. py_get lr ''audits'' (JDict [])) of
        Inr (JDict kvs) \<Rightarrow> kvs
      | _ \<Rightarrow> [])"




text \<open>
  The condition of section 4.2 of the specification for an audit to be an opportunity:
  the type of its details is \<^verbatim>\<open>opportunity\<close>, and the overall savings are positive or the
  items are not empty. Missing details count as an empty dict, missing savings as 0 and
  missing items as the empty list; a value is not empty when Python takes it for true.
\<close>

definition qualifies_as_opportunity :: "'f runtime \<Rightarrow> 'f json \<Rightarrow> bool" where
  "qualifies_as_opportunity P audit =
     (case py_get audit ''details'' (JDict []) of
        Inr details \<Rightarrow>
          py_get details ''type'' JNull = Inr (JStr ''opportunity'')
          \<and> ((case py_get details ''overallSavingsMs'' (JInt 0) of
                 Inr savings \<Rightarrow> py_gt_0 P savings = Inr True | Inl e \<Rightarrow> False)
              \<or> (case py_get details ''items'' (JList []) of
                    Inr its \<Rightarrow> truthy P its | Inl e \<Rightarrow> False))
      | Inl e \<Rightarrow> False)"

text \<open>The resource type of an item is one of the five that the summary lists.\<close>

definition in_resource_summary :: "'f json \<Rightarrow> bool" where
  "in_resource_summary item =
     (case py_get item ''resourceType'' JNull of
        Inr rt \<Rightarrow> rt \<in> JStr ` {''total'', ''script'', ''image'', ''font'', ''third-party''}
      | Inl e \<Rightarrow> False)"

text \<open>A value is a number: an int, a float or a bool.\<close>

definition is_number :: "'f json \<Rightarrow> bool" where
  "is_number v = (case v of JInt i \<Rightarrow> True | JFloat x \<Rightarrow> True | JBool b \<Rightarrow> True | _ \<Rightarrow> False)"

text \<open>
  The number of lines of a text: none for the empty text, else one more than the number
  of its newline characters.
\<close>

definition text_lines :: "string \<Rightarrow> nat" where
  "text_lines s = (if s = [] then 0 else Suc (count_list s (char_of (10 :: nat))))"

section \<open>Example reports\<close>

definition report_without_score :: "rat json" where
  "report_without_score =
     JDict [(''lighthouseResult'', JDict [(''categories'', JDict
        [(''accessibility'', JDict [(''score'', JInt 1)])])])]"



definition report_scenario_B :: "rat json" where
  "report_scenario_B =
     JDict [(''lighthouseResult'', JDict
       [(''audits'', JDict
          [(''bootup-time'', JDict
             [(''title'', JStr ''Reduce JavaScript execution time''),
              (''details'', JDict
                 [(''type'', JStr ''opportunity''),
                  (''overallSavingsMs'', JInt 500),
                  (''items'', JList [JDict [(''url'', JStr ''a.js''),
                                            (''total'', JInt 234)]])])])])])]"

definition report_with_opportunities :: "rat json" where
  "report_with_opportunities =
     JDict [(''lighthouseResult'', JDict
       [(''audits'', JDict
          [(''unused-css-rules'', JDict
             [(''title'', JStr ''Reduce unused CSS''),
              (''details'', JDict
                 [(''type'', JStr ''opportunity''),
                  (''overallSavingsMs'', JInt 0),
                  (''items'', JList [])])]),
           (''viewport'', JDict
             [(''title'', JStr ''Has a viewport meta tag''),
              (''details'', JDict [(''type'', JStr ''debugdata'')])]),
           (''render-blocking-resources'', JDict
             [(''title'', JStr ''Eliminate render-blocking resources''),
              (''description'', JStr ''Resources are blocking the first paint.''),
              (''displayValue'', JStr ''Potential savings of 1 ms''),
              (''details'', JDict
                 [(''type'', JStr ''opportunity''),
                  (''overallSavingsMs'', JInt 1),
                  (''items'', JList [])])])])])]"

definition resource_items :: "rat json list" where
  "resource_items =
     [JDict [(''resourceType'', JStr ''total''), (''label'', JStr ''Total''),
             (''requestCount'', JInt 12), (''transferSize'', JInt 204800)],
      JDict [(''resourceType'', JStr ''media''), (''label'', JStr ''Media''),
             (''requestCount'', JInt 1), (''transferSize'', JInt 4096)],
      JDict [(''resourceType'', JStr ''script''), (''label'', JStr ''Script''),
             (''requestCount'', JInt 5)]]"

definition report_with_resources :: "rat json" where
  "report_with_resources =
     JDict [(''lighthouseResult'', JDict
       [(''audits'', JDict
          [(''resource-summary'', JDict
             [(''title'', JStr ''Resources Summary''),
              (''details'', JDict
                 [(''type'', JStr ''table''),
                  (''items'', JList resource_items)])])])])]"

definition audit_with_null_savings :: "rat json" where
  "audit_with_null_savings =
     JDict [(''title'', JStr ''Reduce unused JavaScript''),
            (''details'', JDict
               [(''type'', JStr ''opportunity''),
                (''overallSavingsMs'', JNull),
                (''items'', JList [JDict [(''url'', JStr ''a.js'')]])])]"

definition report_with_null_savings :: "rat json" where
  "report_with_null_savings =
     JDict [(''lighthouseResult'', JDict
       [(''audits'', JDict [(''unused-javascript'', audit_with_null_savings)])])]"

definition item_with_null_size :: "rat json" where
  "item_with_null_size =
     JDict [(''resourceType'', JStr ''script''), (''label'', JStr ''Script''),
            (''requestCount'', JInt 5), (''transferSize'', JNull)]"

definition report_with_null_size :: "rat json" where
  "report_with_null_size =
     JDict [(''lighthouseResult'', JDict
       [(''audits'', JDict
          [(''resource-summary'', JDict
             [(''details'', JDict [(''items'', JList [item_with_null_size])])])])])]"

definition item_with_two_line_label :: "rat json" where
  "item_with_two_line_label =
     JDict [(''resourceType'', JStr ''script''), (''label'', JStr ''Script\<newline>files''),
            (''requestCount'', JInt 5), (''transferSize'', JInt 2048)]"

definition report_with_two_line_label :: "rat json" where
  "report_with_two_line_label =
     JDict [(''lighthouseResult'', JDict
       [(''audits'', JDict
          [(''resource-summary'', JDict
             [(''details'', JDict [(''items'', JList [item_with_two_line_label])])])])])]"

section \<open>Basic facts\<close>

lemma ebind_Inl [simp]: "ebind (Inl e) f = Inl e"
  by (simp add: ebind_def)

lemma ebind_Inr [simp]: "ebind (Inr x) f = f x"
  by (simp add: ebind_def)

lemma ebind_eq_Inr: "(ebind m f = Inr y) = (\<exists>x. m = Inr x \<and> f x = Inr y)"
  by (cases m) simp_all

lemma py_get_eq_Inr: "(py_get j k d = Inr v) =
    (\<exists>kvs. j = JDict kvs \<and> v = (case map_of kvs k of None \<Rightarrow> d | Some w \<Rightarrow> w))"
  by (cases j) (auto split: option.splits)

lemma py_items_eq_Inr: "(py_items j = Inr kvs) = (j = JDict kvs)"
  by (cases j) auto

lemma langchain_history_map:
  "langchain_history h =
     map (\<lambda>m. case role m of User \<Rightarrow> HumanMessage (content m)
                | Assistant \<Rightarrow> AIMessage (content m)) h"
  by (induction h) (simp_all split: role.splits)

section \<open>The chat operation\<close>

text \<open>
  Claim C8. A chat request issued while the session state holds no digest text, that is
  while \<open>llm_summary\<close> is \<^verbatim>\<open>None\<close> or the empty string, fails with the HTTP error 400
  (a client-usage error) and issues no call to the language model.
\<close>

theorem chat_without_summary_fails:
  assumes "llm_summary app_state = None \<or> llm_summary app_state = Some []"
  shows "chat_with_llm chain_astream app_state request =
           (Inl (HTTPException 400 ''Please analyze a website first before starting a chat.''),
            [])"
  using assms by (auto simp: chat_with_llm_def)

theorem chat_without_summary_fails_witness:
  "llm_summary \<lparr>full_report = None :: rat json option, llm_summary = None\<rparr> = None
   \<and> chat_with_llm (\<lambda>c. [''chunk''])
        \<lparr>full_report = None :: rat json option, llm_summary = None\<rparr>
        \<lparr>history = [\<lparr>role = User, content = ''hi''\<rparr>]\<rparr>
      = (Inl (HTTPException 400 ''Please analyze a website first before starting a chat.''),
         [])"
proof -
  have h: "llm_summary \<lparr>full_report = None :: rat json option, llm_summary = None\<rparr> = None
           \<or> llm_summary \<lparr>full_report = None :: rat json option, llm_summary = None\<rparr> = Some []"
    by simp
  from chat_without_summary_fails [OF h] show ?thesis by simp
qed

text \<open>
  Claim C7. When the session state holds a digest text and the history of the request has
  at least one element, the operation issues exactly one call to the model: its query is
  the content of the last element, and its history is the conversion of all elements but
  the last, in their order, a user turn becoming a human message and an assistant turn
  an AI message with the same content.
\<close>

theorem chat_passes_last_turn_as_query:
  assumes "llm_summary app_state = Some text" and "text \<noteq> []"
    and "history request \<noteq> []"
  shows "chat_with_llm chain_astream app_state request =
           (Inr (chain_astream
                  \<lparr>call_history =
                     map (\<lambda>m. case role m of User \<Rightarrow> HumanMessage (content m)
                                | Assistant \<Rightarrow> AIMessage (content m))
                       (butlast (history request)),
                   call_query = content (last (history request)),
                   call_report_summary = text\<rparr>),
            [\<lparr>call_history =
                 map (\<lambda>m. case role m of User \<Rightarrow> HumanMessage (content m)
                            | Assistant \<Rightarrow> AIMessage (content m))
                   (butlast (history request)),
               call_query = content (last (history request)),
               call_report_summary = text\<rparr>])"
  using assms
  by (simp add: chat_with_llm_def get_llm_stream_def langchain_history_map Let_def)

theorem chat_passes_last_turn_as_query_witness:
  "chat_with_llm (\<lambda>c. c)
     \<lparr>full_report = None :: rat json option, llm_summary = Some ''digest''\<rparr>
     \<lparr>history = [\<lparr>role = User, content = ''hi''\<rparr>,
                 \<lparr>role = Assistant, content = ''hello''\<rparr>,
                 \<lparr>role = User, content = ''why is it slow?''\<rparr>]\<rparr>
   = (Inr \<lparr>call_history = [HumanMessage ''hi'', AIMessage ''hello''],
           call_query = ''why is it slow?'', call_report_summary = ''digest''\<rparr>,
      [\<lparr>call_history = [HumanMessage ''hi'', AIMessage ''hello''],
         call_query = ''why is it slow?'', call_report_summary = ''digest''\<rparr>])"
proof -
  have a: "llm_summary \<lparr>full_report = None :: rat json option, llm_summary = Some ''digest''\<rparr>
             = Some ''digest''"
    by simp
  have b: "''digest'' \<noteq> []"
    by simp
  have c: "history \<lparr>history = [\<lparr>role = User, content = ''hi''\<rparr>,
                 \<lparr>role = Assistant, content = ''hello''\<rparr>,
                 \<lparr>role = User, content = ''why is it slow?''\<rparr>]\<rparr> \<noteq> []"
    by simp
  from chat_passes_last_turn_as_query [OF a b c, of "\<lambda>c. c"] show ?thesis
    by simp
qed

section \<open>The list of core metrics\<close>

text \<open>
  Claim C2. The list of metric ids of \<^verbatim>\<open>extract_info_for_llm\<close> has five elements, not six:
  \<^verbatim>\<open>interactive\<close> is not one of them, its last element being the concatenation
  \<^verbatim>\<open>speed-indexinteractive\<close>. A report whose audits hold \<^verbatim>\<open>speed-index\<close> and
  \<^verbatim>\<open>interactive\<close> gets no core metric for either.
\<close>

theorem metric_ids_lacks_interactive:
  "length metric_ids = 5
   \<and> ''interactive'' \<notin> set metric_ids
   \<and> ''speed-index'' \<notin> set metric_ids
   \<and> last metric_ids = ''speed-indexinteractive''
   \<and> extract_info_for_llm P
        (JDict [(''lighthouseResult'', JDict [(''audits'', JDict
           [(''speed-index'', JDict [(''title'', JStr ''Speed Index''),
                                      (''displayValue'', JStr ''1.1 s'')]),
            (''interactive'', JDict [(''title'', JStr ''Time to Interactive''),
                                      (''displayValue'', JStr ''3.0 s'')])])])])
      = Inr (Some \<lparr>summary_performance_score = None, core_metrics = [],
                    opportunities = [],
                    diagnostics_critical_request_chains = None,
                    diagnostics_resource_summary = None\<rparr>)"
  by (simp add: metric_ids_def core_metric_of_def summary_score_def performance_category_def
      opportunity_of_def is_opportunity_def critical_request_chains_def resource_summary_def)

section \<open>Missing fields in \<^verbatim>\<open>extract_info_for_llm\<close>\<close>

text \<open>
  Claim C1. The input below is a dict. Its \<^verbatim>\<open>longestChain\<close> has a \<^verbatim>\<open>length\<close> and no
  \<^verbatim>\<open>duration\<close>; the missing field is formatted with \<^verbatim>\<open>:.0f\<close> as \<^verbatim>\<open>None\<close>, and
  \<^verbatim>\<open>extract_info_for_llm\<close> raises a type error instead of returning a digest.
\<close>

theorem extract_info_raises_on_missing_duration:
  "extract_info_for_llm P
     (JDict [(''lighthouseResult'', JDict [(''audits'', JDict
        [(''critical-request-chains'', JDict [(''details'', JDict
           [(''longestChain'', JDict [(''length'', JInt 3)])])])])])])
   = Inl TypeError"
  by (simp add: metric_ids_def core_metric_of_def summary_score_def performance_category_def
      opportunity_of_def is_opportunity_def critical_request_chains_def)

section \<open>The analyze operation\<close>

lemma analyze_website_Inr:
  assumes "analyze_website P get_pagespeed_insights chain_ainvoke app_state request
             = (Inr response, app_state', calls)"
  shows "\<exists>report summary text suggestion.
           get_pagespeed_insights (url request) (strategy request) = Inr report
           \<and> extract_info_for_llm P report = Inr summary
           \<and> format_for_llm P summary (url request) = Inr text
           \<and> chain_ainvoke \<lparr>call_history = [], call_query = initial_prompt,
                              call_report_summary = text\<rparr> = Inr suggestion
           \<and> analysis_response P report suggestion = Inr response
           \<and> app_state' = app_state\<lparr>full_report := Some report, llm_summary := Some text\<rparr>"
  using assms
  by (auto simp: analyze_website_def get_initial_suggestion_def Let_def
      split: sum.splits prod.splits)

lemma analyze_website_Inl:
  assumes "analyze_website P get_pagespeed_insights chain_ainvoke app_state request
             = (Inl e, app_state', calls)"
    and "get_pagespeed_insights (url request) (strategy request) = Inr report"
  shows "full_report app_state' = Some report"
  using assms
  by (auto simp: analyze_website_def get_initial_suggestion_def Let_def
      split: sum.splits prod.splits)

text \<open>
  Claim C10. When the performance category of the report or its score is absent, a
  successful analyze operation returns the performance score 0.
\<close>

theorem analyze_score_defaults_to_zero:
  assumes "get_pagespeed_insights (url request) (strategy request) = Inr report"
    and "performance_score_absent report"
    and "analyze_website P get_pagespeed_insights chain_ainvoke app_state request
           = (Inr response, app_state', calls)"
  shows "performance_score response = 0"
proof -
  from analyze_website_Inr [OF assms(3)] assms(1)
  obtain suggestion where r: "analysis_response P report suggestion = Inr response"
    by auto
  from r obtain lr category where
    lr: "py_get report ''lighthouseResult'' (JDict []) = Inr lr"
    and cat: "performance_category lr = Inr category"
    unfolding analysis_response_def ebind_eq_Inr by blast
  from assms(2) lr cat obtain kvs where
    k: "category = JDict kvs" "map_of kvs ''score'' = None"
    by (cases category) (simp_all add: performance_score_absent_def)
  from r lr cat k show ?thesis
    by (auto simp: analysis_response_def ebind_eq_Inr)
qed

theorem analyze_score_defaults_to_zero_witness:
  "performance_score_absent report_without_score
   \<and> (\<exists>response app_state' calls.
        analyze_website exact_runtime (\<lambda>u s. Inr report_without_score)
          (\<lambda>c. Inr ''Hello'') \<lparr>full_report = None, llm_summary = None\<rparr>
          \<lparr>url = ''https://example.com'', strategy = Desktop\<rparr>
        = (Inr response, app_state', calls)
        \<and> performance_score response = 0)"
proof -
  let ?run = "analyze_website exact_runtime (\<lambda>u s. Inr report_without_score)
          (\<lambda>c. Inr ''Hello'') \<lparr>full_report = None, llm_summary = None\<rparr>
          \<lparr>url = ''https://example.com'', strategy = Desktop\<rparr>"
  have a: "performance_score_absent report_without_score"
    by (simp add: performance_score_absent_def report_without_score_def
        performance_category_def)
  have "\<not> isl (fst ?run)"
    by code_simp
  then obtain response where "fst ?run = Inr response"
    by (cases "fst ?run") auto
  then have b: "?run = (Inr response, fst (snd ?run), snd (snd ?run))"
    by (metis prod.collapse)
  have "performance_score response = 0"
    by (rule analyze_score_defaults_to_zero [OF _ a b]) simp
  with a b show ?thesis
    by blast
qed

text \<open>
  Claim C3, as the code has it. If fetching the report fails, the session state keeps its
  previous value and no call goes to the language model. If the analyze operation
  completes, both fields have been overwritten: with the fetched report and with the
  text of its digest. If the operation fails after the report has been fetched, the
  state is not restored: \<open>full_report\<close> already holds the new report.
\<close>

theorem analyze_state_update:
  "(get_pagespeed_insights (url request) (strategy request) = Inl e
      \<longrightarrow> analyze_website P get_pagespeed_insights chain_ainvoke app_state request
            = (Inl e, app_state, []))
   \<and> (analyze_website P get_pagespeed_insights chain_ainvoke app_state request
         = (Inr response, app_state', calls)
      \<longrightarrow> (\<exists>report summary text.
             get_pagespeed_insights (url request) (strategy request) = Inr report
             \<and> extract_info_for_llm P report = Inr summary
             \<and> format_for_llm P summary (url request) = Inr text
             \<and> app_state' = \<lparr>full_report = Some report, llm_summary = Some text\<rparr>))
   \<and> (get_pagespeed_insights (url request) (strategy request) = Inr report'
       \<and> analyze_website P get_pagespeed_insights chain_ainvoke app_state request
           = (Inl e', app_state', calls)
      \<longrightarrow> full_report app_state' = Some report')"
proof (intro conjI impI)
  assume "get_pagespeed_insights (url request) (strategy request) = Inl e"
  then show "analyze_website P get_pagespeed_insights chain_ainvoke app_state request
               = (Inl e, app_state, [])"
    by (simp add: analyze_website_def)
next
  assume "analyze_website P get_pagespeed_insights chain_ainvoke app_state request
            = (Inr response, app_state', calls)"
  from analyze_website_Inr [OF this]
  show "\<exists>report summary text.
          get_pagespeed_insights (url request) (strategy request) = Inr report
          \<and> extract_info_for_llm P report = Inr summary
          \<and> format_for_llm P summary (url request) = Inr text
          \<and> app_state' = \<lparr>full_report = Some report, llm_summary = Some text\<rparr>"
    by (cases app_state) auto
next
  assume "get_pagespeed_insights (url request) (strategy request) = Inr report'
          \<and> analyze_website P get_pagespeed_insights chain_ainvoke app_state request
              = (Inl e', app_state', calls)"
  then show "full_report app_state' = Some report'"
    using analyze_website_Inl by blast
qed

theorem analyze_state_update_witness:
  "analyze_website exact_runtime (\<lambda>u s. Inl (HTTPException 500 ''Network error''))
     (\<lambda>c. Inr ''Hello'') \<lparr>full_report = Some (JDict []), llm_summary = Some ''old''\<rparr>
     \<lparr>url = ''https://example.com'', strategy = Desktop\<rparr>
   = (Inl (HTTPException 500 ''Network error''),
      \<lparr>full_report = Some (JDict []), llm_summary = Some ''old''\<rparr>, [])
   \<and> (\<exists>response calls summary text.
        analyze_website exact_runtime (\<lambda>u s. Inr report_without_score)
          (\<lambda>c. Inr ''Hello'') \<lparr>full_report = Some (JDict []), llm_summary = Some ''old''\<rparr>
          \<lparr>url = ''https://example.com'', strategy = Desktop\<rparr>
        = (Inr response,
           \<lparr>full_report = Some report_without_score, llm_summary = Some text\<rparr>, calls)
        \<and> extract_info_for_llm exact_runtime report_without_score = Inr summary
        \<and> format_for_llm exact_runtime summary ''https://example.com'' = Inr text)"
proof -
  let ?st = "\<lparr>full_report = Some (JDict []), llm_summary = Some ''old''\<rparr> :: rat AppState"
  let ?rq = "\<lparr>url = ''https://example.com'', strategy = Desktop\<rparr>"
  let ?gp = "\<lambda>(u :: string) (s :: strategy). (Inr report_without_score :: error + rat json)"
  let ?run = "analyze_website exact_runtime ?gp (\<lambda>c. Inr ''Hello'') ?st ?rq"
  have a: "analyze_website exact_runtime (\<lambda>u s. Inl (HTTPException 500 ''Network error''))
             (\<lambda>c. Inr ''Hello'') ?st ?rq
           = (Inl (HTTPException 500 ''Network error''), ?st, [])"
    by (rule analyze_state_update [THEN conjunct1, rule_format]) simp
  have "\<not> isl (fst ?run)"
    by code_simp
  then obtain response where "fst ?run = Inr response"
    by (cases "fst ?run") auto
  then have b: "?run = (Inr response, fst (snd ?run), snd (snd ?run))"
    by (metis prod.collapse)
  from analyze_state_update [THEN conjunct2, THEN conjunct1, rule_format, OF b]
  obtain summary dt where
    "extract_info_for_llm exact_runtime report_without_score = Inr summary"
    "format_for_llm exact_runtime summary ''https://example.com'' = Inr dt"
    "fst (snd ?run) = \<lparr>full_report = Some report_without_score, llm_summary = Some dt\<rparr>"
    by auto
  with a b show ?thesis
    by (metis (no_types, lifting))
qed

text \<open>
  Claim C3 as it is written fails: here the language model raises after the report has
  been fetched, the analyze operation fails, and both fields of the session state have
  already been overwritten.
\<close>

theorem analyze_failure_changes_state:
  "analyze_website exact_runtime (\<lambda>u s. Inr report_without_score)
     (\<lambda>c. Inl (ProviderError ''model unavailable''))
     \<lparr>full_report = None, llm_summary = None\<rparr>
     \<lparr>url = ''https://example.com'', strategy = Desktop\<rparr>
   = (Inl (ProviderError ''model unavailable''),
      \<lparr>full_report = Some report_without_score,
       llm_summary = Some ''--- Performance Summary Report for URL: https://example.com ---\<newline>\<newline>--- Core Metrics ---\<newline>\<newline>--- Top Opportunities for Improvement ---\<newline>No significant opportunities were identified.\<newline>\<newline>--- Key Diagnostics ---\<newline>No key diagnostics available.''\<rparr>,
      [\<lparr>call_history = [], call_query = initial_prompt,
        call_report_summary = ''--- Performance Summary Report for URL: https://example.com ---\<newline>\<newline>--- Core Metrics ---\<newline>\<newline>--- Top Opportunities for Improvement ---\<newline>No significant opportunities were identified.\<newline>\<newline>--- Key Diagnostics ---\<newline>No key diagnostics available.''\<rparr>])"
  by code_simp

section \<open>The empty digest\<close>

lemma summary_score_without_category:
  assumes "py_get lr ''categories'' (JDict []) = Inr (JDict kvs)"
    and "map_of kvs ''performance'' = None"
  shows "summary_score P lr = Inr None"
  using assms by (simp add: summary_score_def performance_category_def)

lemma extract_info_Some:
  assumes "extract_info_for_llm P report = Inr (Some d)"
  shows "\<exists>lr audits entries.
           py_get report ''lighthouseResult'' (JDict []) = Inr lr
           \<and> py_get lr ''audits'' (JDict []) = Inr audits
           \<and> py_items audits = Inr entries
           \<and> summary_score P lr = Inr (summary_performance_score d)
           \<and> collect (core_metric_of P audits) metric_ids = Inr (core_metrics d)
           \<and> collect (opportunity_of P) entries = Inr (opportunities d)
           \<and> critical_request_chains P audits = Inr (diagnostics_critical_request_chains d)
           \<and> resource_summary P audits = Inr (diagnostics_resource_summary d)"
proof (cases report)
  case (JDict kvs)
  with assms show ?thesis
    by (auto simp: ebind_eq_Inr split: if_splits)
qed (use assms in simp_all)

lemma join_Cons2: "join sep (x # y # ys) = x @ sep @ y @ concat (map (\<lambda>z. sep @ z) ys)"
  by (simp add: join_def)

lemma format_without_score:
  assumes "summary_performance_score d = None"
  shows "\<exists>rest. format_for_llm P (Some d) u =
           Inr (''--- Performance Summary Report for URL: '' @ u @ '' ---''
                @ nl @ nl @ ''--- Core Metrics ---'' @ rest)"
proof -
  obtain others where
    "format_for_llm P (Some d) u =
       Inr (join nl ((''--- Performance Summary Report for URL: '' @ u @ '' ---'')
                     # (nl @ ''--- Core Metrics ---'') # others))"
    using assms by (simp add: format_for_llm_def score_lines_def)
  then have "format_for_llm P (Some d) u =
       Inr (''--- Performance Summary Report for URL: '' @ u @ '' ---''
            @ nl @ nl @ ''--- Core Metrics ---'' @ concat (map (\<lambda>z. nl @ z) others))"
    by (simp only: join_Cons2 append_assoc)
  then show ?thesis
    by (rule exI)
qed

lemma format_of_digest_without_score:
  assumes "summary_performance_score d = None"
  shows "format_for_llm P (Some d) u =
           Inr (join nl
             ([''--- Performance Summary Report for URL: '' @ u @ '' ---'']
              @ [nl @ ''--- Core Metrics ---'']
              @ map (metric_line P) (core_metrics d)
              @ [nl @ ''--- Top Opportunities for Improvement ---'']
              @ (if opportunities d = []
                 then [''No significant opportunities were identified.'']
                 else concat (map (opportunity_lines P) (opportunities d)))
              @ [nl @ ''--- Key Diagnostics ---'']
              @ (if diagnostics_critical_request_chains d = None
                    \<and> diagnostics_resource_summary d = None
                 then [''No key diagnostics available.'']
                 else (case diagnostics_critical_request_chains d of None \<Rightarrow> []
                       | Some c \<Rightarrow> [''- Critical Request Chains: '' @ c])
                    @ (case diagnostics_resource_summary d of None \<Rightarrow> []
                       | Some r \<Rightarrow> [''- Resource Breakdown:'' @ nl @ r]))))"
  using assms by (simp add: format_for_llm_def score_lines_def)

lemma format_of_digest_not_fixed:
  assumes "summary_performance_score d = None"
  shows "format_for_llm P (Some d) u \<noteq> Inr ''No performance data could be extracted.''"
proof -
  from format_without_score [OF assms] obtain rest where
    "format_for_llm P (Some d) u =
       Inr (''--- Performance Summary Report for URL: '' @ u @ '' ---''
            @ nl @ nl @ ''--- Core Metrics ---'' @ rest)"
    by blast
  then show ?thesis
    by simp
qed

text \<open>
  Claim C4, as the code has it. For a report (a dict) whose \<^verbatim>\<open>lighthouseResult\<close> is
  missing or empty, the extractor returns the empty digest, and the formatter turns the
  empty digest into the fixed sentence, whatever the url. For a report without a
  performance category whose extraction returns a digest that is not empty, the overall
  score is absent, and the formatter returns the lines of the report layout joined by
  newlines: the header with the url, no line for the overall score, then the sections
  of the core metrics, of the opportunities and of the diagnostics, each rendered from
  the digest. This text is not the fixed sentence.
\<close>

theorem empty_digest_and_missing_category:
  "(report = JDict kvs
      \<and> (case map_of kvs ''lighthouseResult'' of None \<Rightarrow> True | Some lr \<Rightarrow> \<not> truthy P lr)
    \<longrightarrow> extract_info_for_llm P report = Inr None
        \<and> format_for_llm P None u = Inr ''No performance data could be extracted.'')
   \<and> (extract_info_for_llm P report = Inr (Some d) \<and> no_performance_category report
    \<longrightarrow> summary_performance_score d = None
        \<and> format_for_llm P (Some d) u =
            Inr (join nl
              ([''--- Performance Summary Report for URL: '' @ u @ '' ---'']
               @ [nl @ ''--- Core Metrics ---'']
               @ map (metric_line P) (core_metrics d)
               @ [nl @ ''--- Top Opportunities for Improvement ---'']
               @ (if opportunities d = []
                  then [''No significant opportunities were identified.'']
                  else concat (map (opportunity_lines P) (opportunities d)))
               @ [nl @ ''--- Key Diagnostics ---'']
               @ (if diagnostics_critical_request_chains d = None
                     \<and> diagnostics_resource_summary d = None
                  then [''No key diagnostics available.'']
                  else (case diagnostics_critical_request_chains d of None \<Rightarrow> []
                        | Some c \<Rightarrow> [''- Critical Request Chains: '' @ c])
                     @ (case diagnostics_resource_summary d of None \<Rightarrow> []
                        | Some r \<Rightarrow> [''- Resource Breakdown:'' @ nl @ r]))))
        \<and> format_for_llm P (Some d) u \<noteq> Inr ''No performance data could be extracted.'')"
proof (intro conjI impI)
  assume a: "report = JDict kvs
      \<and> (case map_of kvs ''lighthouseResult'' of None \<Rightarrow> True | Some lr \<Rightarrow> \<not> truthy P lr)"
  then show "extract_info_for_llm P report = Inr None"
    by (auto split: option.splits)
  show "format_for_llm P None u = Inr ''No performance data could be extracted.''"
    by (simp add: format_for_llm_def)
next
  assume a: "extract_info_for_llm P report = Inr (Some d) \<and> no_performance_category report"
  from a extract_info_Some obtain lr where
    lr: "py_get report ''lighthouseResult'' (JDict []) = Inr lr"
    and sc: "summary_score P lr = Inr (summary_performance_score d)"
    by blast
  from a lr obtain cs where
    "py_get lr ''categories'' (JDict []) = Inr (JDict cs)" "map_of cs ''performance'' = None"
    by (auto simp: no_performance_category_def split: sum.splits json.splits)
  from summary_score_without_category [OF this] sc
  show none: "summary_performance_score d = None"
    by simp
  show "format_for_llm P (Some d) u =
            Inr (join nl
              ([''--- Performance Summary Report for URL: '' @ u @ '' ---'']
               @ [nl @ ''--- Core Metrics ---'']
               @ map (metric_line P) (core_metrics d)
               @ [nl @ ''--- Top Opportunities for Improvement ---'']
               @ (if opportunities d = []
                  then [''No significant opportunities were identified.'']
                  else concat (map (opportunity_lines P) (opportunities d)))
               @ [nl @ ''--- Key Diagnostics ---'']
               @ (if diagnostics_critical_request_chains d = None
                     \<and> diagnostics_resource_summary d = None
                  then [''No key diagnostics available.'']
                  else (case diagnostics_critical_request_chains d of None \<Rightarrow> []
                        | Some c \<Rightarrow> [''- Critical Request Chains: '' @ c])
                     @ (case diagnostics_resource_summary d of None \<Rightarrow> []
                        | Some r \<Rightarrow> [''- Resource Breakdown:'' @ nl @ r]))))"
    by (rule format_of_digest_without_score [OF none])
  show "format_for_llm P (Some d) u \<noteq> Inr ''No performance data could be extracted.''"
    by (rule format_of_digest_not_fixed [OF none])
qed

theorem empty_digest_and_missing_category_witness:
  "extract_info_for_llm exact_runtime (JDict [(''lighthouseResult'', JDict [])]) = Inr None
   \<and> format_for_llm exact_runtime None ''https://example.com''
       = Inr ''No performance data could be extracted.''
   \<and> no_performance_category report_scenario_B
   \<and> (\<exists>d.
         extract_info_for_llm exact_runtime report_scenario_B = Inr (Some d)
         \<and> summary_performance_score d = None
         \<and> format_for_llm exact_runtime (Some d) ''https://example.com''
            \<noteq> Inr ''No performance data could be extracted.''
         \<and> format_for_llm exact_runtime (Some d) ''https://example.com''
            = Inr ''--- Performance Summary Report for URL: https://example.com ---\<newline>\<newline>--- Core Metrics ---\<newline>\<newline>--- Top Opportunities for Improvement ---\<newline>\<newline>- Reduce JavaScript execution time ()\<newline>  - Script: a.js, CPU Time: 234ms\<newline>\<newline>--- Key Diagnostics ---\<newline>No key diagnostics available.'')"
proof -
  let ?d = "\<lparr>summary_performance_score = None, core_metrics = [],
             opportunities =
               [\<lparr>opp_title = JStr ''Reduce JavaScript execution time'',
                 opp_description = JNull, opp_savings = JStr [],
                 opp_items = [''  - Script: a.js, CPU Time: 234ms'']\<rparr>],
             diagnostics_critical_request_chains = None,
             diagnostics_resource_summary = None\<rparr> :: rat extracted_info"
  note inst = empty_digest_and_missing_category [where P = exact_runtime
      and u = "''https://example.com''"]
  have a: "extract_info_for_llm exact_runtime (JDict [(''lighthouseResult'', JDict [])])
             = Inr None
           \<and> format_for_llm exact_runtime None ''https://example.com''
             = Inr ''No performance data could be extracted.''"
    by (rule inst [where kvs = "[(''lighthouseResult'', JDict [])]",
          THEN conjunct1, rule_format]) simp
  have b: "no_performance_category report_scenario_B"
    by code_simp
  have c: "extract_info_for_llm exact_runtime report_scenario_B = Inr (Some ?d)"
    by code_simp
  have e: "format_for_llm exact_runtime (Some ?d) ''https://example.com''
            = Inr ''--- Performance Summary Report for URL: https://example.com ---\<newline>\<newline>--- Core Metrics ---\<newline>\<newline>--- Top Opportunities for Improvement ---\<newline>\<newline>- Reduce JavaScript execution time ()\<newline>  - Script: a.js, CPU Time: 234ms\<newline>\<newline>--- Key Diagnostics ---\<newline>No key diagnostics available.''"
    by code_simp
  from inst [THEN conjunct2, rule_format, OF conjI, OF c b]
  have "summary_performance_score ?d = None
        \<and> format_for_llm exact_runtime (Some ?d) ''https://example.com''
            \<noteq> Inr ''No performance data could be extracted.''"
    by blast
  with a b c e show ?thesis
    by (intro conjI exI [of _ ?d]) simp_all
qed

text \<open>
  Claim C4 as it is written fails: the report below has categories and no performance
  category, its digest has no overall score and is not empty, and the formatter renders
  the report layout, which carries the url, instead of the fixed sentence.
\<close>

theorem missing_category_is_not_empty_digest:
  "no_performance_category report_without_score
   \<and> extract_info_for_llm exact_runtime report_without_score
       = Inr (Some \<lparr>summary_performance_score = None, core_metrics = [],
                     opportunities = [],
                     diagnostics_critical_request_chains = None,
                     diagnostics_resource_summary = None\<rparr>)
   \<and> format_for_llm exact_runtime
        (Some \<lparr>summary_performance_score = None, core_metrics = [],
               opportunities = [],
               diagnostics_critical_request_chains = None,
               diagnostics_resource_summary = None\<rparr>) ''https://a.example''
       = Inr ''--- Performance Summary Report for URL: https://a.example ---\<newline>\<newline>--- Core Metrics ---\<newline>\<newline>--- Top Opportunities for Improvement ---\<newline>No significant opportunities were identified.\<newline>\<newline>--- Key Diagnostics ---\<newline>No key diagnostics available.''
   \<and> format_for_llm exact_runtime
        (Some \<lparr>summary_performance_score = None, core_metrics = [],
               opportunities = [],
               diagnostics_critical_request_chains = None,
               diagnostics_resource_summary = None\<rparr>) ''https://b.example''
       = Inr ''--- Performance Summary Report for URL: https://b.example ---\<newline>\<newline>--- Core Metrics ---\<newline>\<newline>--- Top Opportunities for Improvement ---\<newline>No significant opportunities were identified.\<newline>\<newline>--- Key Diagnostics ---\<newline>No key diagnostics available.''"
  by code_simp

section \<open>The display metrics\<close>









section \<open>Opportunities and the resource summary\<close>

lemma collect_filter:
  assumes "collect f xs = Inr ys"
  shows "list_all2 (\<lambda>y x. f x = Inr (Some y)) ys (filter (\<lambda>x. f x \<noteq> Inr None) xs)
         \<and> (\<forall>x \<in> set xs. \<exists>r. f x = Inr r)"
  using assms
proof (induction xs arbitrary: ys)
  case Nil
  then show ?case by simp
next
  case (Cons x xs)
  from Cons.prems obtain r rs where
    r: "f x = Inr r" and rs: "collect f xs = Inr rs"
    and ys: "ys = (case r of None \<Rightarrow> rs | Some z \<Rightarrow> z # rs)"
    by (auto simp: ebind_eq_Inr)
  from Cons.IH [OF rs] r ys show ?case
    by (cases r) auto
qed

lemma collect_filter_by:
  assumes "collect f xs = Inr ys"
    and "\<And>x r. x \<in> set xs \<Longrightarrow> f x = Inr r \<Longrightarrow> (r \<noteq> None) = Q x"
  shows "list_all2 (\<lambda>y x. f x = Inr (Some y)) ys (filter Q xs)"
proof -
  from collect_filter [OF assms(1)] have
    a: "list_all2 (\<lambda>y x. f x = Inr (Some y)) ys (filter (\<lambda>x. f x \<noteq> Inr None) xs)"
    and b: "\<forall>x \<in> set xs. \<exists>r. f x = Inr r"
    by simp_all
  have "filter (\<lambda>x. f x \<noteq> Inr None) xs = filter Q xs"
  proof (rule filter_cong [OF refl])
    fix x
    assume x: "x \<in> set xs"
    with b obtain r where r: "f x = Inr r"
      by blast
    from assms(2) [OF x r] r show "(f x \<noteq> Inr None) = Q x"
      by simp
  qed
  with a show ?thesis
    by simp
qed

lemma is_opportunity_Inr:
  assumes "is_opportunity P details = Inr b"
  shows "b = (py_get details ''type'' JNull = Inr (JStr ''opportunity'')
              \<and> ((case py_get details ''overallSavingsMs'' (JInt 0) of
                     Inr savings \<Rightarrow> py_gt_0 P savings = Inr True | Inl e \<Rightarrow> False)
                  \<or> (case py_get details ''items'' (JList []) of
                        Inr its \<Rightarrow> truthy P its | Inl e \<Rightarrow> False)))"
  using assms
  by (auto simp: is_opportunity_def ebind_eq_Inr split: if_splits)

lemma opportunity_of_Inr:
  assumes "opportunity_of P entry = Inr r"
  shows "(r \<noteq> None) = qualifies_as_opportunity P (snd entry)"
proof -
  obtain audit_id audit where e: "entry = (audit_id, audit)"
    by (cases entry)
  from assms e obtain details b where
    d: "py_get audit ''details'' (JDict []) = Inr details"
    and b: "is_opportunity P details = Inr b"
    and r: "(if b then ebind (make_opportunity P audit_id audit details) (\<lambda>opp. Inr (Some opp))
             else Inr None) = Inr r"
    by (auto simp: opportunity_of_def ebind_eq_Inr)
  from r have "(r \<noteq> None) = b"
    by (auto simp: ebind_eq_Inr split: if_splits)
  with is_opportunity_Inr [OF b] d e show ?thesis
    by (simp add: qualifies_as_opportunity_def)
qed

lemma extract_info_report_audits:
  assumes "extract_info_for_llm P report = Inr (Some d)"
  shows "collect (opportunity_of P) (report_audits report) = Inr (opportunities d)"
    and "resource_summary P (JDict (report_audits report))
           = Inr (diagnostics_resource_summary d)"
proof -
  from extract_info_Some [OF assms] obtain lr audits entries where
    "py_get report ''lighthouseResult'' (JDict []) = Inr lr"
    "py_get lr ''audits'' (JDict []) = Inr audits"
    "py_items audits = Inr entries"
    "collect (opportunity_of P) entries = Inr (opportunities d)"
    "resource_summary P audits = Inr (diagnostics_resource_summary d)"
    by blast
  then show "collect (opportunity_of P) (report_audits report) = Inr (opportunities d)"
    and "resource_summary P (JDict (report_audits report))
           = Inr (diagnostics_resource_summary d)"
    by (simp_all add: report_audits_def py_items_eq_Inr)
qed

lemma is_opportunity_of_numbers:
  assumes "py_get audit ''details'' (JDict []) = Inr (JDict dkvs)"
    and "case map_of dkvs ''overallSavingsMs'' of None \<Rightarrow> True | Some v \<Rightarrow> is_number v"
  shows "is_opportunity P (JDict dkvs) = Inr (qualifies_as_opportunity P audit)"
proof (cases "map_of dkvs ''overallSavingsMs''")
  case None
  with assms(1) show ?thesis
    by (simp add: is_opportunity_def qualifies_as_opportunity_def split: option.splits)
next
  case (Some v)
  with assms(2) have "is_number v"
    by simp
  then obtain b where "py_gt_0 P v = Inr b"
    by (cases v) (simp_all add: is_number_def)
  with assms(1) Some show ?thesis
    by (simp add: is_opportunity_def qualifies_as_opportunity_def split: option.splits)
qed

text \<open>
  Claim C5, as the code has it. When the extractor returns a digest, its opportunities
  are, one for one and in the order of the report, those built from the audits that
  satisfy the condition: the type of the details is \<^verbatim>\<open>opportunity\<close>, and the overall
  savings are positive or the items are not empty. Whenever the body of the loop returns
  for an audit, it adds an opportunity exactly when the audit satisfies the condition;
  the test of the condition returns, with the value of the condition, whenever the
  details are missing or a dict and the overall savings are missing or a number. An
  audit of type \<^verbatim>\<open>opportunity\<close> with savings 0 and an empty list of items does not satisfy
  the condition and gives no opportunity; with savings 1 it satisfies it, and with an
  empty list of items it gives the opportunity with the title, the description and the
  display value of the audit.
\<close>

theorem opportunities_are_qualifying_audits:
  "(extract_info_for_llm P report = Inr (Some d)
      \<longrightarrow> list_all2 (\<lambda>opp entry. opportunity_of P entry = Inr (Some opp))
            (opportunities d)
            (filter (\<lambda>entry. qualifies_as_opportunity P (snd entry)) (report_audits report)))
   \<and> (opportunity_of P entry = Inr r
      \<longrightarrow> (r \<noteq> None) = qualifies_as_opportunity P (snd entry))
   \<and> (py_get audit ''details'' (JDict []) = Inr (JDict fkvs)
       \<and> (case map_of fkvs ''overallSavingsMs'' of None \<Rightarrow> True | Some v \<Rightarrow> is_number v)
      \<longrightarrow> is_opportunity P (JDict fkvs) = Inr (qualifies_as_opportunity P audit))
   \<and> (map_of akvs ''details'' = Some (JDict dkvs)
       \<and> map_of dkvs ''type'' = Some (JStr ''opportunity'')
       \<and> map_of dkvs ''overallSavingsMs'' = Some (JInt 0)
       \<and> map_of dkvs ''items'' = Some (JList [])
      \<longrightarrow> \<not> qualifies_as_opportunity P (JDict akvs)
          \<and> opportunity_of P (audit_id, JDict akvs) = Inr None)
   \<and> (map_of akvs ''details'' = Some (JDict dkvs)
       \<and> map_of dkvs ''type'' = Some (JStr ''opportunity'')
       \<and> map_of dkvs ''overallSavingsMs'' = Some (JInt 1)
      \<longrightarrow> qualifies_as_opportunity P (JDict akvs)
          \<and> (map_of dkvs ''items'' = Some (JList [])
              \<longrightarrow> opportunity_of P (audit_id, JDict akvs)
                    = Inr (Some
                        \<lparr>opp_title = (case map_of akvs ''title'' of None \<Rightarrow> JNull | Some t \<Rightarrow> t),
                         opp_description =
                           (case map_of akvs ''description'' of None \<Rightarrow> JNull | Some t \<Rightarrow> t),
                         opp_savings =
                           (case map_of akvs ''displayValue'' of None \<Rightarrow> JStr [] | Some t \<Rightarrow> t),
                         opp_items = []\<rparr>)))"
proof (intro conjI impI)
  assume "extract_info_for_llm P report = Inr (Some d)"
  from extract_info_report_audits(1) [OF this]
  show "list_all2 (\<lambda>opp entry. opportunity_of P entry = Inr (Some opp))
            (opportunities d)
            (filter (\<lambda>entry. qualifies_as_opportunity P (snd entry)) (report_audits report))"
    by (rule collect_filter_by) (rule opportunity_of_Inr)
next
  assume "opportunity_of P entry = Inr r"
  then show "(r \<noteq> None) = qualifies_as_opportunity P (snd entry)"
    by (rule opportunity_of_Inr)
next
  assume "py_get audit ''details'' (JDict []) = Inr (JDict fkvs)
       \<and> (case map_of fkvs ''overallSavingsMs'' of None \<Rightarrow> True | Some v \<Rightarrow> is_number v)"
  then show "is_opportunity P (JDict fkvs) = Inr (qualifies_as_opportunity P audit)"
    using is_opportunity_of_numbers by blast
next
  assume a: "map_of akvs ''details'' = Some (JDict dkvs)
       \<and> map_of dkvs ''type'' = Some (JStr ''opportunity'')
       \<and> map_of dkvs ''overallSavingsMs'' = Some (JInt 0)
       \<and> map_of dkvs ''items'' = Some (JList [])"
  then show "\<not> qualifies_as_opportunity P (JDict akvs)"
    by (simp add: qualifies_as_opportunity_def)
  from a show "opportunity_of P (audit_id, JDict akvs) = Inr None"
    by (simp add: opportunity_of_def is_opportunity_def)
next
  assume a: "map_of akvs ''details'' = Some (JDict dkvs)
       \<and> map_of dkvs ''type'' = Some (JStr ''opportunity'')
       \<and> map_of dkvs ''overallSavingsMs'' = Some (JInt 1)"
  then show "qualifies_as_opportunity P (JDict akvs)"
    by (simp add: qualifies_as_opportunity_def)
  assume "map_of dkvs ''items'' = Some (JList [])"
  with a show "opportunity_of P (audit_id, JDict akvs)
                    = Inr (Some
                        \<lparr>opp_title = (case map_of akvs ''title'' of None \<Rightarrow> JNull | Some t \<Rightarrow> t),
                         opp_description =
                           (case map_of akvs ''description'' of None \<Rightarrow> JNull | Some t \<Rightarrow> t),
                         opp_savings =
                           (case map_of akvs ''displayValue'' of None \<Rightarrow> JStr [] | Some t \<Rightarrow> t),
                         opp_items = []\<rparr>)"
    by (simp add: opportunity_of_def is_opportunity_def make_opportunity_def
        split: option.splits)
qed

theorem opportunities_are_qualifying_audits_witness:
  "(\<exists>d. extract_info_for_llm exact_runtime report_with_opportunities = Inr (Some d)
        \<and> opportunities d =
            [\<lparr>opp_title = JStr ''Eliminate render-blocking resources'',
              opp_description = JStr ''Resources are blocking the first paint.'',
              opp_savings = JStr ''Potential savings of 1 ms'',
              opp_items = []\<rparr>]
        \<and> list_all2 (\<lambda>opp entry. opportunity_of exact_runtime entry = Inr (Some opp))
            (opportunities d)
            (filter (\<lambda>entry. qualifies_as_opportunity exact_runtime (snd entry))
               (report_audits report_with_opportunities)))
   \<and> map fst (filter (\<lambda>entry. qualifies_as_opportunity exact_runtime (snd entry))
                 (report_audits report_with_opportunities))
      = [''render-blocking-resources'']"
proof -
  let ?d = "\<lparr>summary_performance_score = None, core_metrics = [],
             opportunities =
               [\<lparr>opp_title = JStr ''Eliminate render-blocking resources'',
                 opp_description = JStr ''Resources are blocking the first paint.'',
                 opp_savings = JStr ''Potential savings of 1 ms'',
                 opp_items = []\<rparr>],
             diagnostics_critical_request_chains = None,
             diagnostics_resource_summary = None\<rparr> :: rat extracted_info"
  have a: "extract_info_for_llm exact_runtime report_with_opportunities = Inr (Some ?d)"
    by code_simp
  have b: "map fst (filter (\<lambda>entry. qualifies_as_opportunity exact_runtime (snd entry))
                 (report_audits report_with_opportunities))
      = [''render-blocking-resources'']"
    by code_simp
  from opportunities_are_qualifying_audits [THEN conjunct1, THEN mp, OF a]
  have "list_all2 (\<lambda>opp entry. opportunity_of exact_runtime entry = Inr (Some opp))
            (opportunities ?d)
            (filter (\<lambda>entry. qualifies_as_opportunity exact_runtime (snd entry))
               (report_audits report_with_opportunities))" .
  with a b show ?thesis
    by (intro conjI exI [of _ ?d]) simp_all
qed

text \<open>
  Claim C5 as it is written fails: the only audit of the report below is of type
  \<^verbatim>\<open>opportunity\<close> and has an item, so it satisfies the condition, but its overall savings
  are \<^verbatim>\<open>null\<close>, the comparison with 0 on line 84 raises a type error, and there is no
  digest to include the audit in.
\<close>

theorem qualifying_audit_without_digest:
  "report_audits report_with_null_savings = [(''unused-javascript'', audit_with_null_savings)]
   \<and> qualifies_as_opportunity exact_runtime audit_with_null_savings
   \<and> extract_info_for_llm exact_runtime report_with_null_savings = Inl TypeError"
  by code_simp

lemma resource_summary_item_Inr:
  assumes "resource_summary_item P item = Inr r"
  shows "(r \<noteq> None) = in_resource_summary item"
  using assms
  by (auto simp: resource_summary_item_def in_resource_summary_def resource_types_def
      ebind_eq_Inr split: if_splits)

lemma resource_summary_item_nonempty:
  assumes "resource_summary_item P item = Inr (Some l)"
  shows "l \<noteq> []"
  using assms
  by (auto simp: resource_summary_item_def ebind_eq_Inr split: if_splits)

lemma count_list_prefixed:
  assumes "\<forall>l \<in> set ls. c \<notin> set l"
  shows "count_list (concat (map (\<lambda>z. c # z) ls)) c = length ls"
  using assms by (induction ls) simp_all

lemma text_lines_join:
  assumes "\<forall>l \<in> set ls. l \<noteq> []" and "\<forall>l \<in> set ls. char_of (10 :: nat) \<notin> set l"
  shows "text_lines (join nl ls) = length ls"
proof (cases ls)
  case Nil
  then show ?thesis
    by (simp add: text_lines_def join_def)
next
  case (Cons x xs)
  with assms have x: "x \<noteq> []" "char_of (10 :: nat) \<notin> set x"
    and xs: "\<forall>l \<in> set xs. char_of (10 :: nat) \<notin> set l"
    by simp_all
  have "(\<lambda>z. nl @ z) = (\<lambda>z. char_of (10 :: nat) # z)"
    by (rule ext) (simp add: nl_def)
  then have "join nl ls = x @ concat (map (\<lambda>z. char_of (10 :: nat) # z) xs)"
    by (simp add: join_def Cons)
  with x count_list_prefixed [OF xs] show ?thesis
    by (simp add: text_lines_def Cons)
qed

text \<open>
  Claim C9, as the code has it. Let the extractor return a digest for a report whose
  audit \<^verbatim>\<open>resource-summary\<close> has the list \<open>items\<close> as the items of its details. Then
  the resource summary of the digest is missing when the list is empty, and else it is
  made of one rendered entry for each item whose resource type is one of \<^verbatim>\<open>total\<close>,
  \<^verbatim>\<open>script\<close>, \<^verbatim>\<open>image\<close>, \<^verbatim>\<open>font\<close> and \<^verbatim>\<open>third-party\<close>, in the order of the items, joined
  by newlines; the number of entries is the number of these items, and an item of
  another type gives no entry. When no entry holds a newline character, the number of
  lines of the text of the summary (none when it is missing) is the number of these
  items.
\<close>

theorem resource_summary_line_count:
  assumes "extract_info_for_llm P report = Inr (Some d)"
    and "map_of (report_audits report) ''resource-summary'' = Some (JDict akvs)"
    and "map_of akvs ''details'' = Some (JDict dkvs)"
    and "map_of dkvs ''items'' = Some (JList items)"
  shows "\<exists>lines.
           list_all2 (\<lambda>line item. resource_summary_item P item = Inr (Some line))
             lines (filter in_resource_summary items)
           \<and> length lines = length (filter in_resource_summary items)
           \<and> (\<forall>item \<in> set items.
                 \<not> in_resource_summary item \<longrightarrow> resource_summary_item P item = Inr None)
           \<and> diagnostics_resource_summary d
               = (if items = [] then None else Some (join nl lines))
           \<and> ((\<forall>line \<in> set lines. char_of (10 :: nat) \<notin> set line)
               \<longrightarrow> (case diagnostics_resource_summary d of
                      None \<Rightarrow> 0 | Some s \<Rightarrow> text_lines s)
                   = length (filter in_resource_summary items))"
proof -
  from assms(3) have ne: "akvs \<noteq> []"
    by auto
  from extract_info_report_audits(2) [OF assms(1)] assms(2-4) ne
  obtain lines where
    c: "collect (resource_summary_item P) items = Inr lines"
    and r: "diagnostics_resource_summary d = (if items = [] then None else Some (join nl lines))"
    by (cases "items = []") (auto simp: resource_summary_def ebind_eq_Inr)
  from c have l: "list_all2 (\<lambda>line item. resource_summary_item P item = Inr (Some line))
             lines (filter in_resource_summary items)"
    by (rule collect_filter_by) (rule resource_summary_item_Inr)
  have len: "length lines = length (filter in_resource_summary items)"
    by (rule list_all2_lengthD [OF l])
  have others: "\<forall>item \<in> set items.
          \<not> in_resource_summary item \<longrightarrow> resource_summary_item P item = Inr None"
  proof (intro ballI impI)
    fix item
    assume "item \<in> set items" and n: "\<not> in_resource_summary item"
    with collect_filter [OF c] obtain x where x: "resource_summary_item P item = Inr x"
      by blast
    from resource_summary_item_Inr [OF x] n x
    show "resource_summary_item P item = Inr None"
      by simp
  qed
  have nonempty: "\<forall>line \<in> set lines. line \<noteq> []"
  proof
    fix line
    assume "line \<in> set lines"
    with l obtain item where "resource_summary_item P item = Inr (Some line)"
      by (auto simp: in_set_conv_nth list_all2_conv_all_nth)
    then show "line \<noteq> []"
      by (rule resource_summary_item_nonempty)
  qed
  have counted: "(\<forall>line \<in> set lines. char_of (10 :: nat) \<notin> set line)
               \<longrightarrow> (case diagnostics_resource_summary d of
                      None \<Rightarrow> 0 | Some s \<Rightarrow> text_lines s)
                   = length (filter in_resource_summary items)"
  proof
    assume free: "\<forall>line \<in> set lines. char_of (10 :: nat) \<notin> set line"
    show "(case diagnostics_resource_summary d of None \<Rightarrow> 0 | Some s \<Rightarrow> text_lines s)
            = length (filter in_resource_summary items)"
    proof (cases "items = []")
      case True
      with r show ?thesis
        by simp
    next
      case False
      with r text_lines_join [OF nonempty free] len show ?thesis
        by simp
    qed
  qed
  from l len others r counted show ?thesis
    by blast
qed

theorem resource_summary_line_count_witness:
  "\<exists>d lines.
     extract_info_for_llm exact_runtime report_with_resources = Inr (Some d)
     \<and> length resource_items = 3
     \<and> length (filter in_resource_summary resource_items) = 2
     \<and> length lines = length (filter in_resource_summary resource_items)
     \<and> diagnostics_resource_summary d = Some (join nl lines)
     \<and> diagnostics_resource_summary d
         = Some ''  - Total: 12 requests, 200 KB\<newline>  - Script: 5 requests, 0 KB''
     \<and> text_lines ''  - Total: 12 requests, 200 KB\<newline>  - Script: 5 requests, 0 KB'' = 2"
proof -
  let ?d = "\<lparr>summary_performance_score = None, core_metrics = [], opportunities = [],
             diagnostics_critical_request_chains = None,
             diagnostics_resource_summary =
               Some ''  - Total: 12 requests, 200 KB\<newline>  - Script: 5 requests, 0 KB''\<rparr>
            :: rat extracted_info"
  let ?akvs = "[(''title'', JStr ''Resources Summary''),
              (''details'', JDict
                 [(''type'', JStr ''table''),
                  (''items'', JList resource_items)])] :: (string \<times> rat json) list"
  let ?dkvs = "[(''type'', JStr ''table''),
                  (''items'', JList resource_items)] :: (string \<times> rat json) list"
  have a: "extract_info_for_llm exact_runtime report_with_resources = Inr (Some ?d)"
    by code_simp
  have b: "map_of (report_audits report_with_resources) ''resource-summary''
             = Some (JDict ?akvs)"
    by (simp add: report_audits_def report_with_resources_def)
  have c: "map_of ?akvs ''details'' = Some (JDict ?dkvs)"
    by simp
  have e: "map_of ?dkvs ''items'' = Some (JList resource_items)"
    by simp
  have n: "resource_items \<noteq> []" "length resource_items = 3"
    by (simp_all add: resource_items_def)
  have f: "length (filter in_resource_summary resource_items) = 2"
    by code_simp
  have g: "text_lines ''  - Total: 12 requests, 200 KB\<newline>  - Script: 5 requests, 0 KB'' = 2"
    by code_simp
  from resource_summary_line_count [OF a b c e] n
  obtain lines where
    "length lines = length (filter in_resource_summary resource_items)"
    "diagnostics_resource_summary ?d = Some (join nl lines)"
    by auto
  with a n f g show ?thesis
    by (intro exI [of _ ?d] exI [of _ lines]) simp
qed

text \<open>
  Claim C9 as it is written fails. In the first report the only item is of type
  \<^verbatim>\<open>script\<close> and its transfer size is \<^verbatim>\<open>null\<close>: the division on line 117 raises a type
  error and there is no digest, so no line stands for the item. In the second report
  the label of the only item holds a newline: the summary has two lines of text for one
  item.
\<close>

theorem resource_summary_lines_differ:
  "in_resource_summary item_with_null_size
   \<and> extract_info_for_llm exact_runtime report_with_null_size = Inl TypeError
   \<and> length (filter in_resource_summary [item_with_two_line_label]) = 1
   \<and> extract_info_for_llm exact_runtime report_with_two_line_label
       = Inr (Some \<lparr>summary_performance_score = None, core_metrics = [],
                     opportunities = [],
                     diagnostics_critical_request_chains = None,
                     diagnostics_resource_summary =
                       Some ''  - Script\<newline>files: 5 requests, 2 KB''\<rparr>)
   \<and> text_lines ''  - Script\<newline>files: 5 requests, 2 KB'' = 2"
  by code_simp

end
